theory Spec2Isabelle
  imports Main "HOL-Library.Sublist"
begin

section \<open>Python values, exceptions and the observable trace\<close>

text \<open>
  The program is a command-line chat shell (\<open>main.py\<close>) around a client class and three
  HTTP adapter functions (\<open>utils/gemini_client.py\<close>). Nothing in it computes: every
  function reads its collaborators (the HTTP library, the chat backend, the file system,
  standard input), logs, prints and returns. The model therefore makes each effect an
  \<open>event\<close> of a trace, each exception a value of \<open>exn + 'a\<close> (\<open>Inl\<close> the exception),
  and each collaborator a field of a \<open>world\<close> record.

  Strings are \<open>string\<close>: a character stands for the code point of the same number, so the
  model covers Python strings over the code points 0 to 255.
\<close>

text \<open>
  The values that \<open>response.json()\<close> can produce and that flow through the adapter.
  A JSON object is the list of its items; \<open>PNone\<close> is Python's \<open>None\<close> (and JSON null).
\<close>

datatype pyval =
    PNone
  | PBool bool
  | PInt int
  | PStr string
  | PList "pyval list"
  | PDict "(string \<times> pyval) list"

text \<open>Python truthiness, as \<open>if token:\<close> tests it.\<close>

fun truthy :: "pyval \<Rightarrow> bool" where
  "truthy PNone = False"
| "truthy (PBool b) = b"
| "truthy (PInt i) = (i \<noteq> 0)"
| "truthy (PStr s) = (s \<noteq> [])"
| "truthy (PList xs) = (xs \<noteq> [])"
| "truthy (PDict kvs) = (kvs \<noteq> [])"

text \<open>
  An optional string argument (\<open>Optional[str]\<close>, or a \<open>str\<close> parameter that receives
  \<open>None\<close>): falsy when it is \<open>None\<close> or the empty string.
\<close>

definition str_truthy :: "string option \<Rightarrow> bool" where
  "str_truthy a = (case a of None \<Rightarrow> False | Some s \<Rightarrow> s \<noteq> [])"

text \<open>\<open>a or b\<close> on optional strings: the first operand when it is truthy, else the second.\<close>

definition py_or :: "string option \<Rightarrow> string option \<Rightarrow> string option" where
  "py_or a b = (if str_truthy a then a else b)"

text \<open>
  An exception is the list of the classes it is an instance of (below \<open>Exception\<close>) and
  its message \<open>str(e)\<close>. \<open>except C\<close> catches it when \<open>C\<close> is among the classes;
  \<open>except Exception\<close> catches every value of this type.
\<close>

datatype exn_class =
  ValueError | RequestException | AttributeError | EOFError | MarkupError | OtherError

datatype exn = Exn (classes: "exn_class list") (message: string)

definition isinstance :: "exn \<Rightarrow> exn_class \<Rightarrow> bool" where
  "isinstance e c = (c \<in> set (classes e))"

text \<open>A name in single quotes, as Python's attribute errors print it.\<close>

definition quoted :: "string \<Rightarrow> string" where
  "quoted s = CHR 0x27 # s @ [CHR 0x27]"

text \<open>\<open>data.get(key)\<close>: a dictionary answers, anything else has no attribute \<open>get\<close>.\<close>

fun py_get :: "pyval \<Rightarrow> string \<Rightarrow> exn + pyval" where
  "py_get (PDict kvs) k = Inr (case map_of kvs k of None \<Rightarrow> PNone | Some v \<Rightarrow> v)"
| "py_get v k = Inl (Exn [AttributeError] (''object has no attribute '' @ quoted ''get''))"

text \<open>\<open>str(n)\<close> for an integer, used where \<open>survey_id\<close> is formatted into a URL.\<close>

fun str_nat :: "nat \<Rightarrow> string" where
  "str_nat n =
     (if n < 10 then [char_of (48 + n)]
      else str_nat (n div 10) @ [char_of (48 + n mod 10)])"

definition str_int :: "int \<Rightarrow> string" where
  "str_int i = (if i < 0 then CHR ''-'' # str_nat (nat (- i)) else str_nat (nat i))"

text \<open>
  An HTTP response as the adapter uses it: the status code, and what \<open>response.json()\<close>
  does (returns the parsed body, or raises).
\<close>

record response =
  status_code :: nat
  json_result :: "exn + pyval"

text \<open>
  \<open>response.raise_for_status()\<close> of the HTTP library: it raises \<open>HTTPError\<close>, a
  \<open>RequestException\<close>, for the client-error and server-error statuses 400 to 599, and
  returns for every other status.
\<close>

definition raise_for_status :: "response \<Rightarrow> exn + unit" where
  "raise_for_status r =
     (if 400 \<le> status_code r \<and> status_code r < 600
      then Inl (Exn [RequestException] (str_nat (status_code r) @ '' Error''))
      else Inr ())"

datatype level = INFO | ERROR

datatype event =
    Log level string
  | LogVal level string pyval
  | HttpGet string "(string \<times> string) list"
  | HttpPost string "(string \<times> string) list" string
  | EnvSet string string
  | BackendCreate string "string option"
  | BackendSend string
  | Input string
  | ConsolePrint string
  | ConsoleMarkdown string
  | Stdout string

text \<open>
  The collaborators. \<open>http_get url headers\<close> is what \<open>requests.get\<close> does: it returns a
  response or raises (a transport failure raises a \<open>RequestException\<close>).
  \<open>backend_send sent message\<close> is what \<open>self.chat.send_message(message)\<close> followed by
  \<open>response.text\<close> does after the messages \<open>sent\<close>: the reply text, or the exception raised.
  \<open>genai_create key model prompt\<close> is \<open>genai.Client(...)\<close> followed by
  \<open>chats.create(...)\<close>: \<open>None\<close> when both return, the exception otherwise.
  \<open>path_exists\<close> is \<open>os.path.exists\<close>.
  \<open>markup_error text\<close> is what the console library's markup parser does when
  \<open>console.print\<close> renders \<open>text\<close>: \<open>None\<close> when it renders it, the \<open>MarkupError\<close> it
  raises otherwise (a closing tag that closes no open tag).
\<close>

record world =
  http_get :: "string \<Rightarrow> (string \<times> string) list \<Rightarrow> exn + response"
  backend_send :: "string list \<Rightarrow> string \<Rightarrow> exn + string"
  genai_create :: "string \<Rightarrow> string \<Rightarrow> string option \<Rightarrow> exn option"
  path_exists :: "string \<Rightarrow> bool"
  markup_error :: "string \<Rightarrow> exn option"

definition is_http :: "event \<Rightarrow> bool" where
  "is_http ev = (case ev of HttpGet u h \<Rightarrow> True | HttpPost u h b \<Rightarrow> True | _ \<Rightarrow> False)"

definition is_backend :: "event \<Rightarrow> bool" where
  "is_backend ev = (case ev of BackendSend m \<Rightarrow> True | BackendCreate m p \<Rightarrow> True | _ \<Rightarrow> False)"

section \<open>The survey API adapter\<close>

text \<open>
  \<open>save_survey\<close> logs and returns \<open>True\<close>; the statements after its \<open>return True\<close>
  (token check, POST, status check) are never reached and so are no branch of the model.
\<close>

definition save_survey :: "world \<Rightarrow> string option \<Rightarrow> int \<Rightarrow> string \<Rightarrow> event list \<times> (exn + bool)" where
  "save_survey w token survey_id survey_data =
     ([Log INFO (''Importing survey data for survey ID: '' @ str_int survey_id
                 @ '' survey Data: '' @ survey_data)],
      Inr True)"

definition export_url :: "int \<Rightarrow> string" where
  "export_url survey_id =
     ''https://beta7.voxco.com/api/survey/export/json/'' @ str_int survey_id
       @ ''?deployed=false&modality=Master''"

definition client_headers :: "string \<Rightarrow> (string \<times> string) list" where
  "client_headers token = [(''Authorization'', ''Client '' @ token)]"

definition load_survey :: "world \<Rightarrow> string option \<Rightarrow> int \<Rightarrow> event list \<times> (exn + pyval)" where
  "load_survey w token survey_id =
     (let start = [Log INFO (''Exporting survey data for survey ID: '' @ str_int survey_id)];
          no_token = (start @ [Log ERROR ''No authentication token provided''], Inr PNone)
      in case token of
           None \<Rightarrow> no_token
         | Some t \<Rightarrow>
             if t = [] then no_token
             else
               let url = export_url survey_id;
                   headers = client_headers t;
                   sent = start @ [HttpGet url headers];
                   caught = (\<lambda>e. if isinstance e RequestException
                                  then (sent @ [Log ERROR (''Survey export error: '' @ message e)],
                                        Inr PNone)
                                  else (sent, Inl e))
               in case http_get w url headers of
                    Inl e \<Rightarrow> caught e
                  | Inr r \<Rightarrow>
                      (case raise_for_status r of
                         Inl e \<Rightarrow> caught e
                       | Inr u \<Rightarrow>
                           (case json_result r of
                              Inl e \<Rightarrow> caught e
                            | Inr doc \<Rightarrow>
                                (sent @ [LogVal INFO ''Survey export successful. Response: '' doc],
                                 Inr doc))))"

definition auth_url :: "string \<Rightarrow> string \<Rightarrow> string" where
  "auth_url username password =
     ''https://beta7.voxco.com/api/authentication/user?userInfo.username='' @ username
       @ ''&userInfo.password='' @ password"

definition authenticate_voxco :: "world \<Rightarrow> string \<Rightarrow> string \<Rightarrow> event list \<times> (exn + pyval)" where
  "authenticate_voxco w username password =
     (let url = auth_url username password;
          sent = [Log INFO (''Authenticating with Voxco API for user: '' @ username),
                  HttpGet url []];
          caught = (\<lambda>e. if isinstance e RequestException
                         then (sent @ [Log ERROR (''Authentication error: '' @ message e)], Inr PNone)
                         else (sent, Inl e))
      in case http_get w url [] of
           Inl e \<Rightarrow> caught e
         | Inr r \<Rightarrow>
             (case raise_for_status r of
                Inl e \<Rightarrow> caught e
              | Inr u \<Rightarrow>
                  (case json_result r of
                     Inl e \<Rightarrow> caught e
                   | Inr data \<Rightarrow>
                       (case py_get data ''Token'' of
                          Inl e \<Rightarrow> caught e
                        | Inr tok \<Rightarrow>
                            (sent @ [LogVal INFO ''Authentication successful. Token: '' tok],
                             Inr tok)))))"

section \<open>The chat session\<close>

text \<open>
  Module \<open>config\<close> is imported by both source files; the record holds the values its
  attributes have when the program reads them.
\<close>

record config =
  GEMINI_API_KEY :: "string option"
  GEMINI_MODEL :: string
  SYSTEM_PROMPT :: "string option"
  ENABLE_RICH_FORMATTING :: bool
  AI_RESPONSE_PREFIX :: string
  USER_PROMPT_PREFIX :: string
  EXIT_COMMANDS :: "string list"

text \<open>
  The fields of a \<open>GeminiClient\<close>. Field \<open>chat\<close> stands for the backend's chat object:
  it holds the messages passed to it so far, on which the backend's next answer may
  depend. The logger and the backend client handle never change and carry no data.
\<close>

record GeminiClient =
  api_key :: string
  system_prompt :: "string option"
  chat :: "string list"
  voxco_token :: pyval

definition key_required :: exn where
  "key_required =
     Exn [ValueError]
       ''Gemini API key is required. Set it in .env file or pass it to the constructor.''"

definition GeminiClient_init ::
  "config \<Rightarrow> world \<Rightarrow> string option \<Rightarrow> string option \<Rightarrow> event list \<times> (exn + GeminiClient)" where
  "GeminiClient_init cfg w api_key_arg system_prompt_arg =
     (case py_or api_key_arg (GEMINI_API_KEY cfg) of
        None \<Rightarrow> ([], Inl key_required)
      | Some k \<Rightarrow>
          if k = [] then ([], Inl key_required)
          else
            let sp = py_or system_prompt_arg (SYSTEM_PROMPT cfg);
                created = [BackendCreate (GEMINI_MODEL cfg) sp]
            in case genai_create w k (GEMINI_MODEL cfg) sp of
                 Some e \<Rightarrow> (created, Inl e)
               | None \<Rightarrow>
                   (created,
                    Inr \<lparr>api_key = k, system_prompt = sp, chat = [], voxco_token = PNone\<rparr>))"

definition authenticate_with_voxco ::
  "world \<Rightarrow> GeminiClient \<Rightarrow> string \<Rightarrow> string \<Rightarrow> event list \<times> (exn + pyval) \<times> GeminiClient" where
  "authenticate_with_voxco w self username password =
     (case authenticate_voxco w username password of
        (evs, Inl e) \<Rightarrow> (evs, Inl e, self)
      | (evs, Inr token) \<Rightarrow>
          if truthy token
          then (evs @ [Log INFO ''Successfully authenticated with Voxco API''],
                Inr token, self\<lparr>voxco_token := token\<rparr>)
          else (evs @ [Log ERROR ''Failed to authenticate with Voxco API''],
                Inr token, self))"

definition error_msg :: "exn \<Rightarrow> string" where
  "error_msg e = ''Error in processing: '' @ message e"

definition send_message ::
  "world \<Rightarrow> GeminiClient \<Rightarrow> string \<Rightarrow> event list \<times> (exn + string) \<times> GeminiClient" where
  "send_message w self msg =
     (let asked = [Log INFO (''USER: '' @ msg), BackendSend msg];
          self' = self\<lparr>chat := chat self @ [msg]\<rparr>
      in case backend_send w (chat self) msg of
           Inr text \<Rightarrow> (asked @ [Log INFO (''AI: '' @ text)], Inr text, self')
         | Inl e \<Rightarrow> (asked @ [Log ERROR (error_msg e)], Inr (error_msg e), self'))"

text \<open>
  Class \<open>GeminiClient\<close> defines \<open>__init__\<close>, \<open>authenticate_with_voxco\<close> and
  \<open>send_message\<close> and nothing else, so the shell's call \<open>client.process_file(file_path)\<close>
  fails at the attribute lookup.
\<close>

definition process_file :: "GeminiClient \<Rightarrow> string \<Rightarrow> exn + string" where
  "process_file self file_path =
     Inl (Exn [AttributeError]
            (quoted ''GeminiClient'' @ '' object has no attribute '' @ quoted ''process_file''))"

section \<open>The interactive shell\<close>

text \<open>
  \<open>str.isspace\<close>, \<open>str.lower\<close> and \<open>str.strip\<close> on the code points 0 to 255: the white
  space there is 9 to 13, 28 to 32, 133 and 160; the letters with a lower-case partner are
  A to Z and 192 to 222 without 215, each 32 below its partner.
\<close>

definition isspace :: "char \<Rightarrow> bool" where
  "isspace c =
     (let n = (of_char c :: nat)
      in (9 \<le> n \<and> n \<le> 13) \<or> (28 \<le> n \<and> n \<le> 32) \<or> n = 133 \<or> n = 160)"

definition lower_char :: "char \<Rightarrow> char" where
  "lower_char c =
     (let n = (of_char c :: nat)
      in if (65 \<le> n \<and> n \<le> 90) \<or> (192 \<le> n \<and> n \<le> 222 \<and> n \<noteq> 215)
         then char_of (n + 32) else c)"

definition lower :: "string \<Rightarrow> string" where
  "lower s = map lower_char s"

definition strip :: "string \<Rightarrow> string" where
  "strip s = rev (dropWhile isspace (rev (dropWhile isspace s)))"

definition red :: "string \<Rightarrow> string" where
  "red s = ''[bold red]'' @ s @ ''[/bold red]''"

definition display_response :: "config \<Rightarrow> string \<Rightarrow> event list" where
  "display_response cfg text =
     (if ENABLE_RICH_FORMATTING cfg then [ConsoleMarkdown text]
      else [Stdout (AI_RESPONSE_PREFIX cfg @ text)])"

text \<open>
  \<open>console.print\<close> of an f-string: a run-time string \<open>s\<close> put unescaped between
  constant markup \<open>opening\<close> and \<open>closing\<close> whose tags are balanced. The markup parser
  finds a tag only at an opening bracket, so a string without one adds no tag and the text
  is printed; a string with one is read as markup, and the print raises what the parser
  raises. A constant text with balanced tags is printed as it is.
\<close>

definition console_print :: "world \<Rightarrow> string \<Rightarrow> string \<Rightarrow> string \<Rightarrow> event list \<times> exn option" where
  "console_print w opening s closing =
     (let markup = opening @ s @ closing in
      if CHR ''['' \<in> set s
      then (case markup_error w markup of
              None \<Rightarrow> ([ConsolePrint markup], None)
            | Some e \<Rightarrow> ([], Some e))
      else ([ConsolePrint markup], None))"

definition display_welcome :: "config \<Rightarrow> world \<Rightarrow> event list \<times> exn option" where
  "display_welcome cfg w =
     (let title = [ConsolePrint ''[bold blue]Welcome to Voxco Chatbot![/bold blue]''] in
      case console_print w ''Using model: [green]'' (GEMINI_MODEL cfg) ''[/green]'' of
        (evs, Some e) \<Rightarrow> (title @ evs, Some e)
      | (evs, None) \<Rightarrow> (title @ evs @ [ConsolePrint ''---''], None))"

datatype loop_end = Break | Raised exn

definition after :: "event list \<Rightarrow> event list \<times> loop_end \<Rightarrow> event list \<times> loop_end" where
  "after evs res = (evs @ fst res, snd res)"

text \<open>
  A print that stands outside every \<open>try\<close> body of the loop (after the path test, or in an
  \<open>except\<close> handler): when it raises, the exception leaves the loop; otherwise the loop
  goes on with \<open>next\<close>.
\<close>

definition print_then ::
  "event list \<Rightarrow> event list \<times> exn option \<Rightarrow> event list \<times> loop_end \<Rightarrow> event list \<times> loop_end" where
  "print_then evs printed next =
     (case snd printed of
        None \<Rightarrow> after (evs @ fst printed) next
      | Some e \<Rightarrow> (evs @ fst printed, Raised e))"

text \<open>
  The \<open>while True\<close> loop of \<open>chat\<close>, run on the lines that standard input still holds.
  Each round reads one line, so the recursion is on that list; when the input is used up
  \<open>input\<close> raises \<open>EOFError\<close>, which leaves the loop.
\<close>

fun chat_loop :: "config \<Rightarrow> world \<Rightarrow> GeminiClient \<Rightarrow> string list \<Rightarrow> event list \<times> loop_end" where
  "chat_loop cfg w client [] =
     ([Input (USER_PROMPT_PREFIX cfg)], Raised (Exn [EOFError] ''EOF when reading a line''))"
| "chat_loop cfg w client (user_input # rest) =
     (let asked = [Input (USER_PROMPT_PREFIX cfg)] in
      if strip (lower user_input) \<in> set (EXIT_COMMANDS cfg)
      then (asked @ [ConsolePrint ''[bold blue]Goodbye![/bold blue]''], Break)
      else if prefix ''file '' (lower user_input)
      then
        (let file_path = strip (drop 5 user_input) in
         if file_path = []
         then after (asked @ [ConsolePrint (red ''Error: Please specify a file name'')])
                (chat_loop cfg w client rest)
         else if \<not> path_exists w file_path
         then print_then asked
                (console_print w ''[bold red]Error: File not found: '' file_path ''[/bold red]'')
                (chat_loop cfg w client rest)
         else
           (case process_file client file_path of
              Inr response \<Rightarrow>
                after (asked @ display_response cfg response) (chat_loop cfg w client rest)
            | Inl e \<Rightarrow>
                print_then asked
                  (console_print w ''[bold red]Error: '' (message e) ''[/bold red]'')
                  (chat_loop cfg w client rest)))
      else
        (case send_message w client user_input of
           (evs, Inr response, client') \<Rightarrow>
             after (asked @ evs @ display_response cfg response) (chat_loop cfg w client' rest)
         | (evs, Inl e, client') \<Rightarrow>
             print_then (asked @ evs)
               (console_print w ''[bold red]Error: '' (message e) ''[/bold red]'')
               (chat_loop cfg w client' rest)))"

text \<open>
  Command \<open>chat\<close> of the CLI; the result is the trace and the exit code of the process:
  0 when the function returns, 1 from \<open>sys.exit(1)\<close> in a handler, and 1 as well when the
  handler's own print raises and the exception leaves the program.
\<close>

definition chat_cmd ::
  "config \<Rightarrow> world \<Rightarrow> string option \<Rightarrow> string \<Rightarrow> string option \<Rightarrow> string list \<Rightarrow> event list \<times> nat" where
  "chat_cmd cfg w api_key_opt model system_prompt_opt inputs =
     (let env =
            (case api_key_opt of
               None \<Rightarrow> []
             | Some k \<Rightarrow> if k = [] then [] else [EnvSet ''GEMINI_API_KEY'' k])
            @ (if model \<noteq> GEMINI_MODEL cfg then [EnvSet ''GEMINI_MODEL'' model] else [])
            @ (case system_prompt_opt of
                 None \<Rightarrow> []
               | Some p \<Rightarrow> if p = [] then [] else [EnvSet ''SYSTEM_PROMPT'' p]);
          hints =
            [ConsolePrint
               (''[dim]Type '' @ quoted ''file <filename>''
                  @ '' to attach a file to your message.[/dim]''),
             ConsolePrint (''[dim]Type '' @ quoted ''help'' @ '' for more information.[/dim]''),
             ConsolePrint ''---''];
          failed =
            (\<lambda>evs e.
               if isinstance e ValueError
               then (evs @ fst (console_print w ''[bold red]Error: '' (message e)
                                  ''[/bold red]''), 1)
               else (evs @ fst (console_print w ''[bold red]Unexpected error: '' (message e)
                                  ''[/bold red]''), 1))
      in case GeminiClient_init cfg w None None of
           (evs, Inl e) \<Rightarrow> failed (env @ evs) e
         | (evs, Inr client) \<Rightarrow>
             (case display_welcome cfg w of
                (shown, Some e) \<Rightarrow> failed (env @ evs @ shown) e
              | (shown, None) \<Rightarrow>
                  (case chat_loop cfg w client inputs of
                     (evs', Break) \<Rightarrow> (env @ evs @ shown @ hints @ evs', 0)
                   | (evs', Raised e) \<Rightarrow> failed (env @ evs @ shown @ hints @ evs') e)))"

section \<open>Sample configurations and worlds\<close>

definition sample_config :: config where
  "sample_config =
     \<lparr>GEMINI_API_KEY = Some ''key'', GEMINI_MODEL = ''gemini'', SYSTEM_PROMPT = None,
      ENABLE_RICH_FORMATTING = False, AI_RESPONSE_PREFIX = ''AI: '',
      USER_PROMPT_PREFIX = ''You: '', EXIT_COMMANDS = [''exit'', ''quit'', ''bye'']\<rparr>"

definition keyless_config :: config where
  "keyless_config = sample_config\<lparr>GEMINI_API_KEY := None\<rparr>"

definition world_of :: "(exn + response) \<Rightarrow> (exn + string) \<Rightarrow> string list \<Rightarrow> world" where
  "world_of got reply files =
     \<lparr>http_get = (\<lambda>url headers. got), backend_send = (\<lambda>sent msg. reply),
      genai_create = (\<lambda>key model prompt. None), path_exists = (\<lambda>p. p \<in> set files),
      markup_error = (\<lambda>text. None)\<rparr>"

definition connection_error :: exn where
  "connection_error = Exn [RequestException] ''Connection refused''"

definition backend_error :: exn where
  "backend_error = Exn [OtherError] ''503 UNAVAILABLE''"

text \<open>A world in which creating the backend client fails.\<close>

definition backend_down :: world where
  "backend_down =
     (world_of (Inl connection_error) (Inr ''hi'') [])
       \<lparr>genai_create := (\<lambda>key model prompt. Some backend_error)\<rparr>"

text \<open>
  A world whose markup parser refuses, as the console library does, a text that holds the
  closing tag \<open>[/x]\<close>, which closes none of the tags the program opens.
\<close>

definition unmatched_tag :: exn where
  "unmatched_tag =
     Exn [MarkupError] (''closing tag '' @ quoted ''[/x]'' @ '' matches no open tag'')"

definition strict_markup :: world where
  "strict_markup =
     (world_of (Inl connection_error) (Inr ''hi'') [])
       \<lparr>markup_error := (\<lambda>text. if sublist ''[/x]'' text then Some unmatched_tag else None)\<rparr>"

definition answer :: "nat \<Rightarrow> pyval \<Rightarrow> response" where
  "answer code body = \<lparr>status_code = code, json_result = Inr body\<rparr>"

definition sample_client :: GeminiClient where
  "sample_client = \<lparr>api_key = ''key'', system_prompt = None, chat = [], voxco_token = PNone\<rparr>"

section \<open>Claims about the adapter\<close>

text \<open>
  C1. For every token, survey id and survey data, \<open>save_survey\<close> returns \<open>True\<close> and its
  trace holds no HTTP request.
\<close>

theorem save_survey_always_true:
  "snd (save_survey w token survey_id survey_data) = Inr True \<and>
   filter is_http (fst (save_survey w token survey_id survey_data)) = []"
  by (simp add: save_survey_def is_http_def)

text \<open>
  C2. For every survey id, \<open>load_survey\<close> called with an absent or falsy token (\<open>None\<close>
  or the empty string) returns \<open>None\<close>, and its trace holds no HTTP request.
\<close>

theorem load_survey_without_token:
  "\<not> str_truthy token \<Longrightarrow>
   snd (load_survey w token survey_id) = Inr PNone \<and>
   filter is_http (fst (load_survey w token survey_id)) = []"
  by (auto simp: load_survey_def str_truthy_def is_http_def Let_def split: option.splits)

text \<open>The theorem at concrete inputs.\<close>

theorem load_survey_without_token_witness:
  "\<not> str_truthy None \<and> \<not> str_truthy (Some '''') \<and>
   snd (load_survey (world_of (Inr (answer 200 (PDict []))) (Inr ''hi'') []) None 7) = Inr PNone \<and>
   filter is_http (fst (load_survey (world_of (Inr (answer 200 (PDict []))) (Inr ''hi'') []) (Some '''') 7)) = []"
  using load_survey_without_token [of None "world_of (Inr (answer 200 (PDict []))) (Inr ''hi'') []" 7]
        load_survey_without_token [of "Some ''''" "world_of (Inr (answer 200 (PDict []))) (Inr ''hi'') []" 7]
  by (simp add: str_truthy_def)

text \<open>
  C3, as the claim states it: every response whose status is not 2xx makes
  \<open>authenticate_voxco\<close> return \<open>None\<close>. It fails for a status that \<open>raise_for_status\<close>
  lets pass: a response with status 300 and a JSON body holding a token is read like a
  success, and the token is returned.
\<close>

theorem authenticate_voxco_redirect_counterexample:
  "\<not> (200 \<le> status_code (answer 300 (PDict [(''Token'', PStr ''abc'')])) \<and>
       status_code (answer 300 (PDict [(''Token'', PStr ''abc'')])) < 300) \<and>
   snd (authenticate_voxco
          (world_of (Inr (answer 300 (PDict [(''Token'', PStr ''abc'')]))) (Inr ''hi'') [])
          ''user'' ''secret'') = Inr (PStr ''abc'') \<and>
   Inr (PStr ''abc'') \<noteq> (Inr PNone :: exn + pyval)"
  by (simp add: authenticate_voxco_def world_of_def answer_def raise_for_status_def Let_def)

text \<open>
  C3, amended. For every username and password, if the request raises a
  \<open>RequestException\<close> (a transport error) or the response has a status from 400 to 599,
  \<open>authenticate_voxco\<close> returns \<open>None\<close> and raises nothing.
\<close>

theorem authenticate_voxco_failure_absent:
  "(case http_get w (auth_url username password) [] of
      Inl e \<Rightarrow> isinstance e RequestException
    | Inr r \<Rightarrow> 400 \<le> status_code r \<and> status_code r < 600) \<Longrightarrow>
   snd (authenticate_voxco w username password) = Inr PNone"
  by (auto simp: authenticate_voxco_def raise_for_status_def isinstance_def Let_def split: sum.splits)

text \<open>The theorem at concrete inputs.\<close>

theorem authenticate_voxco_failure_absent_witness:
  "isinstance connection_error RequestException \<and>
   snd (authenticate_voxco (world_of (Inl connection_error) (Inr ''hi'') []) ''user'' ''secret'') = Inr PNone \<and>
   snd (authenticate_voxco (world_of (Inr (answer 404 (PDict [(''Token'', PStr ''abc'')]))) (Inr ''hi'') [])
          ''user'' ''secret'') = Inr PNone"
  using authenticate_voxco_failure_absent [of "world_of (Inl connection_error) (Inr ''hi'') []" "''user''" "''secret''"]
        authenticate_voxco_failure_absent [of "world_of (Inr (answer 404 (PDict [(''Token'', PStr ''abc'')]))) (Inr ''hi'') []" "''user''" "''secret''"]
  by (simp add: world_of_def answer_def connection_error_def isinstance_def)

text \<open>
  C9. For every username and password, if the request succeeds with a 2xx status and the
  body is a JSON object without a \<open>Token\<close> item, \<open>authenticate_voxco\<close> returns \<open>None\<close>
  and raises nothing.
\<close>

theorem authenticate_voxco_no_token_field:
  "http_get w (auth_url username password) [] = Inr r \<Longrightarrow>
   200 \<le> status_code r \<Longrightarrow> status_code r < 300 \<Longrightarrow>
   json_result r = Inr (PDict kvs) \<Longrightarrow> ''Token'' \<notin> fst ` set kvs \<Longrightarrow>
   snd (authenticate_voxco w username password) = Inr PNone"
  by (simp add: authenticate_voxco_def raise_for_status_def Let_def map_of_eq_None_iff [THEN iffD2])

text \<open>The theorem at concrete inputs.\<close>

theorem authenticate_voxco_no_token_field_witness:
  "snd (authenticate_voxco (world_of (Inr (answer 200 (PDict [(''Message'', PStr ''ok'')]))) (Inr ''hi'') [])
          ''user'' ''secret'') = Inr PNone"
  using authenticate_voxco_no_token_field
          [of "world_of (Inr (answer 200 (PDict [(''Message'', PStr ''ok'')]))) (Inr ''hi'') []"
              "''user''" "''secret''" "answer 200 (PDict [(''Message'', PStr ''ok'')])"
              "[(''Message'', PStr ''ok'')]"]
  by (simp add: world_of_def answer_def)

section \<open>Claims about the chat session\<close>

text \<open>
  C10. \<open>authenticate_with_voxco\<close> returns what \<open>authenticate_voxco\<close> returns; it stores
  the token in \<open>voxco_token\<close> exactly when the token is truthy, and leaves the client as
  it was when the token is falsy or the adapter raises. The fields \<open>api_key\<close>,
  \<open>system_prompt\<close> and \<open>chat\<close> keep their values in every case.
\<close>

theorem authenticate_with_voxco_frame:
  "authenticate_with_voxco w self username password = (evs, res, self') \<Longrightarrow>
   res = snd (authenticate_voxco w username password) \<and>
   (case res of
      Inr token \<Rightarrow>
        if truthy token then self' = self\<lparr>voxco_token := token\<rparr> else self' = self
    | Inl e \<Rightarrow> self' = self) \<and>
   api_key self' = api_key self \<and> system_prompt self' = system_prompt self \<and>
   chat self' = chat self"
  by (auto simp: authenticate_with_voxco_def split: prod.splits sum.splits if_splits)

text \<open>The theorem at concrete inputs.\<close>

theorem authenticate_with_voxco_frame_witness:
  "snd (snd (authenticate_with_voxco
       (world_of (Inr (answer 200 (PDict [(''Token'', PStr ''abc'')]))) (Inr ''hi'') [])
       sample_client ''user'' ''secret'')) = sample_client\<lparr>voxco_token := PStr ''abc''\<rparr> \<and>
   snd (snd (authenticate_with_voxco
       (world_of (Inl connection_error) (Inr ''hi'') [])
       sample_client ''user'' ''secret'')) = sample_client"
proof -
  let ?up = "world_of (Inr (answer 200 (PDict [(''Token'', PStr ''abc'')]))) (Inr ''hi'') []"
  let ?down = "world_of (Inl connection_error) (Inr ''hi'') []"
  obtain evs res c where up:
    "authenticate_with_voxco ?up sample_client ''user'' ''secret'' = (evs, res, c)"
    by (cases "authenticate_with_voxco ?up sample_client ''user'' ''secret''")
  obtain evs' res' c' where down:
    "authenticate_with_voxco ?down sample_client ''user'' ''secret'' = (evs', res', c')"
    by (cases "authenticate_with_voxco ?down sample_client ''user'' ''secret''")
  have "c = sample_client\<lparr>voxco_token := PStr ''abc''\<rparr>"
    using authenticate_with_voxco_frame [OF up]
    by (auto simp: authenticate_voxco_def world_of_def answer_def raise_for_status_def Let_def)
  moreover have "c' = sample_client"
    using authenticate_with_voxco_frame [OF down]
    by (auto simp: authenticate_voxco_def world_of_def connection_error_def isinstance_def Let_def)
  ultimately show ?thesis
    by (simp add: up down)
qed

text \<open>
  \<open>send_message\<close> returns a string whatever the backend does: its \<open>except Exception\<close>
  turns every exception into the reply.
\<close>

lemma send_message_returns:
  "\<exists>reply. fst (snd (send_message w self msg)) = Inr reply"
  by (simp add: send_message_def Let_def split: sum.splits)

section \<open>Claims about the interactive shell\<close>

text \<open>
  A tail that does not start with a character to drop survives \<open>dropWhile\<close> whatever
  stands before it.
\<close>

lemma dropWhile_keeps_tail:
  "ys \<noteq> [] \<Longrightarrow> \<not> P (hd ys) \<Longrightarrow> \<exists>zs. dropWhile P (xs @ ys) = zs @ ys"
proof (induction xs)
  case Nil
  then show ?case by (cases ys) auto
next
  case (Cons x xs)
  then show ?case by (cases "P x") (auto intro: exI [of _ "x # xs"])
qed

text \<open>
  A line that starts with \<open>file \<close> still starts with \<open>file\<close> after \<open>strip\<close>: the
  letter f is no white space, and trailing white space ends at the letter e at the latest.
\<close>

lemma file_prefix_strip:
  assumes "prefix ''file '' s"
  shows "prefix ''file'' (strip s)"
proof -
  from assms obtain r where s: "s = ''file '' @ r"
    by (auto simp: prefix_def)
  have front: "dropWhile isspace s = s"
    by (simp add: s isspace_def)
  have "rev s = (rev r @ '' '') @ ''elif''"
    by (simp add: s)
  moreover have "\<exists>zs. dropWhile isspace ((rev r @ '' '') @ ''elif'') = zs @ ''elif''"
    by (rule dropWhile_keeps_tail) (simp_all add: isspace_def)
  ultimately obtain zs where "dropWhile isspace (rev s) = zs @ ''elif''"
    by auto
  then have "strip s = ''file'' @ rev zs"
    by (simp add: strip_def front)
  then show ?thesis
    by (simp add: prefix_def)
qed

text \<open>
  Every round of the loop starts by prompting for a line.
\<close>

lemma chat_loop_prompts_first:
  "hd (fst (chat_loop cfg w client inputs)) = Input (USER_PROMPT_PREFIX cfg)"
  by (cases inputs)
    (auto simp: after_def print_then_def Let_def split: sum.splits prod.splits option.splits)

text \<open>
  C4. For every input line whose lower-cased, stripped form is one of the exit phrases,
  the loop prints the farewell and ends; its trace holds the prompt and the farewell only,
  so nothing is sent to the chat backend or the survey API. No other condition on the line
  is needed: the exit test runs before the file-command test and the regular branch.
\<close>

theorem exit_phrase_terminates:
  "strip (lower user_input) \<in> set (EXIT_COMMANDS cfg) \<Longrightarrow>
   chat_loop cfg w client (user_input # rest) =
     ([Input (USER_PROMPT_PREFIX cfg), ConsolePrint ''[bold blue]Goodbye![/bold blue]''], Break) \<and>
   filter is_backend (fst (chat_loop cfg w client (user_input # rest))) = [] \<and>
   filter is_http (fst (chat_loop cfg w client (user_input # rest))) = []"
  by (simp add: is_backend_def is_http_def)

text \<open>
  The theorem at concrete inputs: an exit phrase in other case with white space around it,
  and a line that is both an exit phrase and a file command.
\<close>

theorem exit_phrase_terminates_witness:
  "strip (lower ''  Exit '') \<in> set (EXIT_COMMANDS sample_config) \<and>
   chat_loop sample_config (world_of (Inl connection_error) (Inr ''hi'') []) sample_client
     [''  Exit '', ''hello''] =
     ([Input ''You: '', ConsolePrint ''[bold blue]Goodbye![/bold blue]''], Break) \<and>
   prefix ''file '' (lower ''FILE bye'') \<and>
   chat_loop (sample_config\<lparr>EXIT_COMMANDS := [''file bye'']\<rparr>)
     (world_of (Inl connection_error) (Inr ''hi'') [''bye'']) sample_client [''FILE bye''] =
     ([Input ''You: '', ConsolePrint ''[bold blue]Goodbye![/bold blue]''], Break)"
proof -
  have a: "strip (lower ''  Exit '') \<in> set (EXIT_COMMANDS sample_config)"
    by code_simp
  have b: "strip (lower ''FILE bye'') \<in> set (EXIT_COMMANDS (sample_config\<lparr>EXIT_COMMANDS := [''file bye'']\<rparr>))"
    by code_simp
  have c: "prefix ''file '' (lower ''FILE bye'')"
    by code_simp
  show ?thesis
    using a c
      exit_phrase_terminates [OF a, of "world_of (Inl connection_error) (Inr ''hi'') []"
        sample_client "[''hello'']"]
      exit_phrase_terminates [OF b, of "world_of (Inl connection_error) (Inr ''hi'') [''bye'']"
        sample_client "[]"]
    by (simp add: sample_config_def)
qed

text \<open>
  With a configuration none of whose exit phrases starts with \<open>file\<close>, no file command
  is an exit phrase.
\<close>

lemma file_command_not_exit:
  assumes "\<forall>p \<in> set (EXIT_COMMANDS cfg). \<not> prefix ''file'' p"
    and "prefix ''file '' (lower user_input)"
  shows "strip (lower user_input) \<notin> set (EXIT_COMMANDS cfg)"
proof -
  have "prefix ''file'' (strip (lower user_input))"
    using assms(2) by (rule file_prefix_strip)
  with assms(1) show ?thesis
    by blast
qed

text \<open>
  C6, as the claim states it: every line that starts with \<open>file \<close> and names no path
  gets the local error message and a new prompt. It fails when the line is an exit phrase
  as well, since the exit test comes first: with the exit phrase \<open>file\<close> configured, the
  line \<open>file \<close> ends the loop with the farewell.
\<close>

theorem file_command_exit_phrase_counterexample:
  "prefix ''file '' (lower ''file '') \<and> strip (drop 5 ''file '') = [] \<and>
   chat_loop (sample_config\<lparr>EXIT_COMMANDS := [''file'']\<rparr>)
     (world_of (Inl connection_error) (Inr ''hi'') []) sample_client [''file '', ''hello''] =
     ([Input ''You: '', ConsolePrint ''[bold blue]Goodbye![/bold blue]''], Break)"
proof -
  have cmd: "prefix ''file '' (lower ''file '')"
    by code_simp
  have path: "strip (drop 5 ''file '') = []"
    by code_simp
  have phrase: "strip (lower ''file '') = ''file''"
    by code_simp
  show ?thesis
    using cmd path by (simp add: phrase sample_config_def)
qed

text \<open>
  C6, amended. For every input line that is not an exit phrase and starts with \<open>file \<close>
  in any case: if the stripped rest of the line is empty, or names a path that does not
  exist and whose error message the console renders (as it does for every path without an
  opening bracket), the shell prints a local error message, sends nothing to the backend,
  and the loop goes on by prompting for the next line.
\<close>

theorem file_command_missing_path:
  assumes "strip (lower user_input) \<notin> set (EXIT_COMMANDS cfg)"
    and "prefix ''file '' (lower user_input)"
    and "strip (drop 5 user_input) = [] \<or>
         (\<not> path_exists w (strip (drop 5 user_input)) \<and>
          (CHR ''['' \<in> set (strip (drop 5 user_input)) \<longrightarrow>
             markup_error w (red (''Error: File not found: '' @ strip (drop 5 user_input))) = None))"
  shows "chat_loop cfg w client (user_input # rest) =
           after [Input (USER_PROMPT_PREFIX cfg),
                  ConsolePrint (red (if strip (drop 5 user_input) = []
                                     then ''Error: Please specify a file name''
                                     else ''Error: File not found: '' @ strip (drop 5 user_input)))]
             (chat_loop cfg w client rest) \<and>
         hd (fst (chat_loop cfg w client rest)) = Input (USER_PROMPT_PREFIX cfg) \<and>
         filter is_backend
           [Input (USER_PROMPT_PREFIX cfg),
            ConsolePrint (red (if strip (drop 5 user_input) = []
                               then ''Error: Please specify a file name''
                               else ''Error: File not found: '' @ strip (drop 5 user_input)))] = []"
proof (cases "strip (drop 5 user_input) = []")
  case True
  with assms(1,2) show ?thesis
    by (simp add: Let_def chat_loop_prompts_first is_backend_def)
next
  case False
  with assms(3) have missing: "\<not> path_exists w (strip (drop 5 user_input))"
    and renders: "CHR ''['' \<in> set (strip (drop 5 user_input)) \<Longrightarrow>
      markup_error w (red (''Error: File not found: '' @ strip (drop 5 user_input))) = None"
    by auto
  have "console_print w ''[bold red]Error: File not found: '' (strip (drop 5 user_input))
          ''[/bold red]'' =
        ([ConsolePrint (red (''Error: File not found: '' @ strip (drop 5 user_input)))], None)"
    using renders by (auto simp: console_print_def red_def Let_def)
  with assms(1,2) False missing show ?thesis
    by (simp add: Let_def print_then_def chat_loop_prompts_first is_backend_def)
qed

text \<open>
  The theorem at concrete inputs: a path that does not exist, a file command without a
  path, and a missing path with a bracket that the console renders.
\<close>

theorem file_command_missing_path_witness:
  "chat_loop sample_config (world_of (Inl connection_error) (Inr ''hi'') []) sample_client
     [''File nonexistent.txt''] =
     ([Input ''You: '', ConsolePrint (red ''Error: File not found: nonexistent.txt''),
       Input ''You: ''],
      Raised (Exn [EOFError] ''EOF when reading a line'')) \<and>
   chat_loop sample_config (world_of (Inl connection_error) (Inr ''hi'') []) sample_client
     [''file   ''] =
     ([Input ''You: '', ConsolePrint (red ''Error: Please specify a file name''),
       Input ''You: ''],
      Raised (Exn [EOFError] ''EOF when reading a line'')) \<and>
   chat_loop sample_config (world_of (Inl connection_error) (Inr ''hi'') []) sample_client
     [''file a[1].txt''] =
     ([Input ''You: '', ConsolePrint (red ''Error: File not found: a[1].txt''),
       Input ''You: ''],
      Raised (Exn [EOFError] ''EOF when reading a line''))"
proof -
  let ?w = "world_of (Inl connection_error) (Inr ''hi'') []"
  have regular: "strip (lower ''File nonexistent.txt'') \<notin> set (EXIT_COMMANDS sample_config)"
    by code_simp
  have cmd: "prefix ''file '' (lower ''File nonexistent.txt'')"
    by code_simp
  have path: "strip ''nonexistent.txt'' = ''nonexistent.txt''"
    by code_simp
  have missing: "strip (drop 5 ''File nonexistent.txt'') = [] \<or>
      (\<not> path_exists ?w (strip (drop 5 ''File nonexistent.txt'')) \<and>
       (CHR ''['' \<in> set (strip (drop 5 ''File nonexistent.txt'')) \<longrightarrow>
          markup_error ?w (red (''Error: File not found: ''
            @ strip (drop 5 ''File nonexistent.txt''))) = None))"
    by (simp add: world_of_def)
  have regular': "strip (lower ''file   '') \<notin> set (EXIT_COMMANDS sample_config)"
    by code_simp
  have cmd': "prefix ''file '' (lower ''file   '')"
    by code_simp
  have path': "strip ''  '' = []"
    by code_simp
  have missing': "strip (drop 5 ''file   '') = [] \<or>
      (\<not> path_exists ?w (strip (drop 5 ''file   '')) \<and>
       (CHR ''['' \<in> set (strip (drop 5 ''file   '')) \<longrightarrow>
          markup_error ?w (red (''Error: File not found: ''
            @ strip (drop 5 ''file   ''))) = None))"
    by (simp add: world_of_def)
  have regular'': "strip (lower ''file a[1].txt'') \<notin> set (EXIT_COMMANDS sample_config)"
    by code_simp
  have cmd'': "prefix ''file '' (lower ''file a[1].txt'')"
    by code_simp
  have path'': "strip ''a[1].txt'' = ''a[1].txt''"
    by code_simp
  have missing'': "strip (drop 5 ''file a[1].txt'') = [] \<or>
      (\<not> path_exists ?w (strip (drop 5 ''file a[1].txt'')) \<and>
       (CHR ''['' \<in> set (strip (drop 5 ''file a[1].txt'')) \<longrightarrow>
          markup_error ?w (red (''Error: File not found: ''
            @ strip (drop 5 ''file a[1].txt''))) = None))"
    by (simp add: world_of_def)
  show ?thesis
    using file_command_missing_path [OF regular cmd missing, of sample_client "[]"]
      file_command_missing_path [OF regular' cmd' missing', of sample_client "[]"]
      file_command_missing_path [OF regular'' cmd'' missing'', of sample_client "[]"]
    by (simp add: path path' path'' after_def sample_config_def del: chat_loop.simps(2))
qed

text \<open>
  The case the amended claim leaves out: the path goes unescaped into the markup of the
  error message. At the line \<open>file [/x]\<close> the console refuses the message, the exception
  is raised outside the inner \<open>try\<close>, and the loop ends without a second prompt; the
  handler of \<open>chat\<close> then fails to print the same text, and the process exits with 1.
\<close>

lemma unescaped_path_leaves_loop:
  "chat_loop sample_config strict_markup sample_client [''file [/x]'', ''hello''] =
     ([Input ''You: ''], Raised unmatched_tag) \<and>
   snd (chat_cmd sample_config strict_markup None ''gemini'' None [''file [/x]'', ''hello'']) = 1 \<and>
   last (fst (chat_cmd sample_config strict_markup None ''gemini'' None
                [''file [/x]'', ''hello''])) = Input ''You: ''"
proof -
  have regular: "strip (lower ''file [/x]'') \<notin> set (EXIT_COMMANDS sample_config)"
    by code_simp
  have cmd: "prefix ''file '' (lower ''file [/x]'')"
    by code_simp
  have path: "strip ''[/x]'' = ''[/x]''"
    by code_simp
  have refused: "markup_error strict_markup (''[bold red]Error: File not found: '' @ ''[/x]''
                   @ ''[/bold red]'') = Some unmatched_tag"
    unfolding strict_markup_def world_of_def by code_simp
  have refused': "markup_error strict_markup (''[bold red]Unexpected error: ''
                   @ message unmatched_tag @ ''[/bold red]'') = Some unmatched_tag"
    unfolding strict_markup_def world_of_def by code_simp
  have bracket: "CHR ''['' \<in> set (message unmatched_tag)"
    by code_simp
  have missing: "\<not> path_exists strict_markup ''[/x]''"
    by (simp add: strict_markup_def world_of_def)
  have loop: "chat_loop sample_config strict_markup sample_client [''file [/x]'', ''hello''] =
     ([Input ''You: ''], Raised unmatched_tag)"
    using regular cmd missing refused
    by (subst chat_loop.simps(2))
      (simp add: path Let_def print_then_def console_print_def sample_config_def
         del: chat_loop.simps)
  have created: "genai_create strict_markup ''key'' ''gemini'' None = None"
    by (simp add: strict_markup_def world_of_def)
  have other: "\<not> isinstance unmatched_tag ValueError"
    by (simp add: isinstance_def unmatched_tag_def)
  have "chat_cmd sample_config strict_markup None ''gemini'' None [''file [/x]'', ''hello''] =
     ([BackendCreate ''gemini'' None,
       ConsolePrint ''[bold blue]Welcome to Voxco Chatbot![/bold blue]'',
       ConsolePrint ''Using model: [green]gemini[/green]'', ConsolePrint ''---'',
       ConsolePrint (''[dim]Type '' @ quoted ''file <filename>''
                     @ '' to attach a file to your message.[/dim]''),
       ConsolePrint (''[dim]Type '' @ quoted ''help'' @ '' for more information.[/dim]''),
       ConsolePrint ''---'', Input ''You: ''], 1)"
    using loop created other refused' bracket
    by (simp add: chat_cmd_def GeminiClient_init_def display_welcome_def console_print_def
          py_or_def str_truthy_def sample_config_def sample_client_def Let_def
          del: chat_loop.simps)
  with loop show ?thesis
    by simp
qed

text \<open>
  C7. For every message, if the backend raises while \<open>send_message\<close> produces the reply,
  \<open>send_message\<close> logs the error and returns the string \<open>Error in processing: \<close> followed
  by the exception's message, raising nothing. In the shell, a line that is neither an
  exit phrase nor a file command is sent this way, the error string is displayed like a
  reply, and the loop goes on: its next event is the prompt for the next line.
\<close>

theorem send_message_catches:
  assumes "backend_send w (chat client) user_input = Inl e"
  shows "send_message w client user_input =
           ([Log INFO (''USER: '' @ user_input), BackendSend user_input,
             Log ERROR (''Error in processing: '' @ message e)],
            Inr (''Error in processing: '' @ message e),
            client\<lparr>chat := chat client @ [user_input]\<rparr>) \<and>
         (strip (lower user_input) \<notin> set (EXIT_COMMANDS cfg) \<and>
          \<not> prefix ''file '' (lower user_input) \<longrightarrow>
            chat_loop cfg w client (user_input # rest) =
              after ([Input (USER_PROMPT_PREFIX cfg), Log INFO (''USER: '' @ user_input),
                      BackendSend user_input,
                      Log ERROR (''Error in processing: '' @ message e)]
                     @ display_response cfg (''Error in processing: '' @ message e))
                (chat_loop cfg w (client\<lparr>chat := chat client @ [user_input]\<rparr>) rest) \<and>
            hd (fst (chat_loop cfg w (client\<lparr>chat := chat client @ [user_input]\<rparr>) rest)) =
              Input (USER_PROMPT_PREFIX cfg))"
proof -
  have sent: "send_message w client user_input =
           ([Log INFO (''USER: '' @ user_input), BackendSend user_input,
             Log ERROR (''Error in processing: '' @ message e)],
            Inr (''Error in processing: '' @ message e),
            client\<lparr>chat := chat client @ [user_input]\<rparr>)"
    using assms by (simp add: send_message_def error_msg_def Let_def)
  then show ?thesis
    by (simp add: chat_loop_prompts_first Let_def)
qed

text \<open>The theorem at concrete inputs.\<close>

theorem send_message_catches_witness:
  "send_message (world_of (Inl connection_error) (Inl backend_error) []) sample_client ''hello'' =
     ([Log INFO ''USER: hello'', BackendSend ''hello'',
       Log ERROR ''Error in processing: 503 UNAVAILABLE''],
      Inr ''Error in processing: 503 UNAVAILABLE'',
      sample_client\<lparr>chat := [''hello'']\<rparr>) \<and>
   chat_loop sample_config (world_of (Inl connection_error) (Inl backend_error) []) sample_client
     [''hello''] =
     ([Input ''You: '', Log INFO ''USER: hello'', BackendSend ''hello'',
       Log ERROR ''Error in processing: 503 UNAVAILABLE'',
       Stdout ''AI: Error in processing: 503 UNAVAILABLE'', Input ''You: ''],
      Raised (Exn [EOFError] ''EOF when reading a line''))"
proof -
  let ?w = "world_of (Inl connection_error) (Inl backend_error) []"
  have raises: "backend_send ?w (chat sample_client) ''hello'' = Inl backend_error"
    by (simp add: world_of_def)
  have regular: "strip (lower ''hello'') \<notin> set (EXIT_COMMANDS sample_config) \<and>
                 \<not> prefix ''file '' (lower ''hello'')"
    by code_simp
  show ?thesis
    using send_message_catches [OF raises, of sample_config "[]"] regular
    by (simp add: after_def sample_config_def sample_client_def backend_error_def
          display_response_def del: chat_loop.simps(2))
qed

text \<open>
  C5, as the claim states it: the credential error is the only error that leaves the
  session. It fails in the constructor itself: with a key present, an error raised while
  the backend client and chat are created leaves the constructor as well, and command
  \<open>chat\<close> handles it in its branch for unexpected errors.
\<close>

theorem constructor_error_counterexample:
  "snd (GeminiClient_init sample_config backend_down None None) = Inl backend_error \<and>
   backend_error \<noteq> key_required \<and> \<not> isinstance backend_error ValueError \<and>
   chat_cmd sample_config backend_down None ''gemini'' None [''hello''] =
     ([BackendCreate ''gemini'' None, ConsolePrint (red ''Unexpected error: 503 UNAVAILABLE'')],
      1)"
  by (simp add: GeminiClient_init_def chat_cmd_def console_print_def backend_down_def
        world_of_def sample_config_def backend_error_def key_required_def py_or_def
        str_truthy_def isinstance_def red_def Let_def)

text \<open>
  C5, amended. Constructing the client when neither the constructor argument nor the
  configuration holds a non-empty API key raises the credential error, a \<open>ValueError\<close>.
  Command \<open>chat\<close>, which constructs the client without arguments, then prints the
  error and exits with code 1 without contacting the backend. The only other error that
  leaves the constructor is one raised while the backend client and chat are created;
  whatever error leaves the constructor, \<open>chat\<close> exits with code 1, and it reports an
  error that is no \<open>ValueError\<close> as unexpected. \<open>send_message\<close> lets no error leave
  the session.
\<close>

theorem missing_api_key_exits:
  "(\<not> str_truthy api_key_arg \<and> \<not> str_truthy (GEMINI_API_KEY cfg) \<longrightarrow>
      GeminiClient_init cfg w api_key_arg system_prompt_arg = ([], Inl key_required)) \<and>
   isinstance key_required ValueError \<and>
   (\<not> str_truthy (GEMINI_API_KEY cfg) \<longrightarrow>
      snd (chat_cmd cfg w api_key_opt model system_prompt_opt inputs) = 1 \<and>
      last (fst (chat_cmd cfg w api_key_opt model system_prompt_opt inputs)) =
        ConsolePrint (red (''Error: '' @ message key_required)) \<and>
      filter is_backend (fst (chat_cmd cfg w api_key_opt model system_prompt_opt inputs)) = []) \<and>
   (\<exists>reply. fst (snd (send_message w self msg)) = Inr reply) \<and>
   (snd (GeminiClient_init cfg w api_key_arg system_prompt_arg) = Inl e \<longrightarrow>
      e = key_required \<or>
      (\<exists>k. genai_create w k (GEMINI_MODEL cfg)
              (py_or system_prompt_arg (SYSTEM_PROMPT cfg)) = Some e)) \<and>
   (snd (GeminiClient_init cfg w None None) = Inl e \<longrightarrow>
      snd (chat_cmd cfg w api_key_opt model system_prompt_opt inputs) = 1 \<and>
      (\<not> isinstance e ValueError \<and> CHR ''['' \<notin> set (message e) \<longrightarrow>
         last (fst (chat_cmd cfg w api_key_opt model system_prompt_opt inputs)) =
           ConsolePrint (red (''Unexpected error: '' @ message e))))"
proof -
  have init: "GeminiClient_init cfg w a sp = ([], Inl key_required)"
    if "\<not> str_truthy a" "\<not> str_truthy (GEMINI_API_KEY cfg)" for a sp
    using that
    by (auto simp: GeminiClient_init_def py_or_def str_truthy_def split: option.splits)
  have cls: "isinstance key_required ValueError"
    by (simp add: isinstance_def key_required_def)
  have none: "\<not> str_truthy None"
    by (simp add: str_truthy_def)
  have plain: "CHR ''['' \<notin> set (message key_required)"
    by (simp add: key_required_def)
  have cmd: "snd (chat_cmd cfg w api_key_opt model system_prompt_opt inputs) = 1 \<and>
      last (fst (chat_cmd cfg w api_key_opt model system_prompt_opt inputs)) =
        ConsolePrint (red (''Error: '' @ message key_required)) \<and>
      filter is_backend (fst (chat_cmd cfg w api_key_opt model system_prompt_opt inputs)) = []"
    if "\<not> str_truthy (GEMINI_API_KEY cfg)"
    using init [OF none that, of None] cls plain
    by (simp add: chat_cmd_def console_print_def red_def is_backend_def Let_def
          split: option.splits)
  have origin: "e = key_required \<or>
      (\<exists>k. genai_create w k (GEMINI_MODEL cfg)
              (py_or system_prompt_arg (SYSTEM_PROMPT cfg)) = Some e)"
    if "snd (GeminiClient_init cfg w api_key_arg system_prompt_arg) = Inl e"
    using that
    by (auto simp: GeminiClient_init_def Let_def split: option.splits if_splits)
  have code: "snd (chat_cmd cfg w api_key_opt model system_prompt_opt inputs) = 1 \<and>
      (\<not> isinstance e ValueError \<and> CHR ''['' \<notin> set (message e) \<longrightarrow>
         last (fst (chat_cmd cfg w api_key_opt model system_prompt_opt inputs)) =
           ConsolePrint (red (''Unexpected error: '' @ message e)))"
    if "snd (GeminiClient_init cfg w None None) = Inl e"
  proof -
    obtain evs r where made: "GeminiClient_init cfg w None None = (evs, r)"
      by (cases "GeminiClient_init cfg w None None")
    with that have "r = Inl e"
      by simp
    with made show ?thesis
      by (simp add: chat_cmd_def console_print_def red_def Let_def)
  qed
  show ?thesis
    using init cls cmd send_message_returns origin code by blast
qed

text \<open>
  The theorem at concrete inputs: no key anywhere, and a key with a backend that cannot
  be created.
\<close>

theorem missing_api_key_exits_witness:
  "GeminiClient_init keyless_config (world_of (Inl connection_error) (Inr ''hi'') [])
     (Some []) None = ([], Inl key_required) \<and>
   chat_cmd keyless_config (world_of (Inl connection_error) (Inr ''hi'') []) None ''gemini'' None
     [''hello''] =
     ([ConsolePrint
         (red ''Error: Gemini API key is required. Set it in .env file or pass it to the constructor.'')],
      1) \<and>
   snd (chat_cmd sample_config backend_down None ''gemini'' None [''hello'']) = 1 \<and>
   last (fst (chat_cmd sample_config backend_down None ''gemini'' None [''hello''])) =
     ConsolePrint (red ''Unexpected error: 503 UNAVAILABLE'')"
proof -
  let ?w = "world_of (Inl connection_error) (Inr ''hi'') []"
  have nokey: "\<not> str_truthy (GEMINI_API_KEY keyless_config)"
    by (simp add: keyless_config_def sample_config_def str_truthy_def)
  have noarg: "\<not> str_truthy (Some [])"
    by (simp add: str_truthy_def)
  note inst = missing_api_key_exits [of "Some []" keyless_config ?w None None "''gemini''" None
      "[''hello'']" sample_client "''hello''" key_required]
  from inst nokey noarg
  have "GeminiClient_init keyless_config ?w (Some []) None = ([], Inl key_required)"
    by blast
  moreover have "chat_cmd keyless_config ?w None ''gemini'' None [''hello''] =
     ([ConsolePrint
         (red ''Error: Gemini API key is required. Set it in .env file or pass it to the constructor.'')],
      1)"
    by (simp add: chat_cmd_def GeminiClient_init_def console_print_def py_or_def str_truthy_def
          keyless_config_def sample_config_def key_required_def isinstance_def red_def)
  moreover have "snd (chat_cmd sample_config backend_down None ''gemini'' None [''hello'']) = 1 \<and>
     last (fst (chat_cmd sample_config backend_down None ''gemini'' None [''hello''])) =
       ConsolePrint (red ''Unexpected error: 503 UNAVAILABLE'')"
  proof -
    have raised: "snd (GeminiClient_init sample_config backend_down None None) = Inl backend_error"
      by (simp add: GeminiClient_init_def backend_down_def world_of_def sample_config_def
            py_or_def str_truthy_def Let_def)
    have other: "\<not> isinstance backend_error ValueError \<and> CHR ''['' \<notin> set (message backend_error)"
      by (simp add: isinstance_def backend_error_def)
    have shown: "message backend_error = ''503 UNAVAILABLE''"
      by (simp add: backend_error_def)
    from missing_api_key_exits [of None sample_config backend_down None None "''gemini''" None
        "[''hello'']" sample_client "''hello''" backend_error] raised other
    show ?thesis
      by (simp add: shown)
  qed
  ultimately show ?thesis
    by simp
qed

text \<open>
  A file command with a path that exists reaches \<open>client.process_file\<close>, which the
  class does not define: the shell prints the attribute error and prompts again.
\<close>

lemma file_command_existing_path:
  assumes "strip (lower user_input) \<notin> set (EXIT_COMMANDS cfg)"
    and "prefix ''file '' (lower user_input)"
    and "strip (drop 5 user_input) \<noteq> []"
    and "path_exists w (strip (drop 5 user_input))"
  shows "chat_loop cfg w client (user_input # rest) =
           after [Input (USER_PROMPT_PREFIX cfg),
                  ConsolePrint (red (''Error: '' @ quoted ''GeminiClient''
                                     @ '' object has no attribute '' @ quoted ''process_file''))]
             (chat_loop cfg w client rest)"
  using assms
  by (simp add: Let_def process_file_def print_then_def console_print_def quoted_def red_def)

text \<open>
  C8 says that a file command with an existing path forwards the file's content to the
  chat session and displays the reply. At the line \<open>file notes.txt\<close>, with
  \<open>notes.txt\<close> present, the shell instead prints the attribute error of the missing
  method; nothing is sent to the backend and no reply is displayed.
\<close>

theorem process_file_missing:
  "chat_loop sample_config (world_of (Inl connection_error) (Inr ''hi'') [''notes.txt''])
     sample_client [''file notes.txt''] =
     ([Input ''You: '',
       ConsolePrint (red (''Error: '' @ quoted ''GeminiClient''
                          @ '' object has no attribute '' @ quoted ''process_file'')),
       Input ''You: ''],
      Raised (Exn [EOFError] ''EOF when reading a line'')) \<and>
   filter is_backend
     (fst (chat_loop sample_config (world_of (Inl connection_error) (Inr ''hi'') [''notes.txt''])
             sample_client [''file notes.txt''])) = []"
proof -
  let ?w = "world_of (Inl connection_error) (Inr ''hi'') [''notes.txt'']"
  have a: "strip (lower ''file notes.txt'') \<notin> set (EXIT_COMMANDS sample_config)"
    by code_simp
  have b: "prefix ''file '' (lower ''file notes.txt'')"
    by code_simp
  have p: "strip (drop 5 ''file notes.txt'') = ''notes.txt''"
    by code_simp
  have c: "strip (drop 5 ''file notes.txt'') \<noteq> []"
    by (simp only: p) simp
  have d: "path_exists ?w (strip (drop 5 ''file notes.txt''))"
    by (simp only: p) (simp add: world_of_def)
  have "chat_loop sample_config ?w sample_client [''file notes.txt''] =
     ([Input ''You: '',
       ConsolePrint (red (''Error: '' @ quoted ''GeminiClient''
                          @ '' object has no attribute '' @ quoted ''process_file'')),
       Input ''You: ''],
      Raised (Exn [EOFError] ''EOF when reading a line''))"
    using file_command_existing_path [OF a b c d, of sample_client "[]"]
    by (simp add: after_def sample_config_def del: chat_loop.simps(2))
  then show ?thesis
    by (simp add: is_backend_def del: chat_loop.simps(2))
qed

end
